theory Spec2Isabelle
  imports Complex_Main "HOL-Library.AList" "HOL-Library.Multiset"
begin

section \<open>Conventions of the embedding\<close>

text \<open>
  The development embeds the scoring core of the service: the schema resolver
  (package \<open>schema\<close>), the scoring function (package \<open>scoring\<close>), the run pipeline
  with its retry wrapper, and the idempotency claim of package \<open>repository\<close>.

  \<^item> Go's \<open>float64\<close> is modelled by \<open>real\<close>: arithmetic is exact, there is no NaN, no
    infinity and no rounding.
  \<^item> A Go \<open>map[string]T\<close> is an association list; a \<open>range\<close> loop visits its entries
    in list order (Go leaves the order open), a lookup is \<open>map_of\<close>. A Go map has
    one entry per key, which is the predicate \<open>uniqueKeys\<close>.
  \<^item> A Go \<open>error\<close> is a value of the datatype \<open>error\<close>; \<open>nil\<close> is \<open>None\<close>.
  \<^item> Library functions whose code is not part of the repository (JSON decoding and
    encoding, \<open>fmt\<close> number formatting, \<open>unicode.ToUpper\<close>) are the fields of a
    record \<open>lib\<close> passed to the functions that call them.
\<close>

type_synonym uuid = nat

datatype error =
    ErrNilSchema
  | ErrEmptySiteData
  | ErrCannotConvertString
  | ErrUnsupportedType
  | ErrGlobalParse string
  | ErrNoSiteIDColumn
  | ErrNoFields
  | ErrTenantParse string
  | ErrNonExistentField string
  | ErrEmptyKey
  | ErrUnexpectedEmptyResult
  | ErrRunNotFound
  | ErrNoGlobalConfig
  | ErrStore string
  | ErrContext string
  | ErrRetriesExhausted string

definition uniqueKeys :: "('k \<times> 'v) list \<Rightarrow> bool" where
  "uniqueKeys al = distinct (map fst al)"

section \<open>Schema data model\<close>

type_synonym FieldType = string

abbreviation TypePercentage :: FieldType where "TypePercentage \<equiv> ''percentage''"
abbreviation TypeIndex :: FieldType where "TypeIndex \<equiv> ''index''"
abbreviation TypeInteger :: FieldType where "TypeInteger \<equiv> ''integer''"
abbreviation TypeNumeric :: FieldType where "TypeNumeric \<equiv> ''numeric''"
abbreviation TypePopulation :: FieldType where "TypePopulation \<equiv> ''population''"
abbreviation TypeText :: FieldType where "TypeText \<equiv> ''text''"
abbreviation TypeIdentifier :: FieldType where "TypeIdentifier \<equiv> ''identifier''"

type_synonym Direction = string

abbreviation DirectionMaximize :: Direction where "DirectionMaximize \<equiv> ''maximize''"
abbreviation DirectionMinimize :: Direction where "DirectionMinimize \<equiv> ''minimize''"

record FieldDef =
  fdType :: FieldType
  fdRequired :: bool
  fdMin :: "real option"
  fdMax :: "real option"
  fdWeight :: real
  fdDirection :: Direction
  fdDescription :: string

record ResolvedSchema =
  Fields :: "(string \<times> FieldDef) list"
  SiteIDColumn :: string
  Weights :: "(string \<times> real) list"

record GlobalSchemaConfig =
  gFields :: "(string \<times> FieldDef) list"
  gSiteIDColumn :: string

record TenantSchemaOverride =
  tFields :: "(string \<times> FieldDef) list"
  tSiteIDColumn :: "string option"
  tWeights :: "(string \<times> real) list"

text \<open>A value of Go's \<open>interface{}\<close>, by the dynamic types \<open>toFloat64\<close> tells apart.\<close>

datatype anyval =
    VFloat64 real
  | VFloat32 real
  | VInt int
  | VInt64 int
  | VInt32 int
  | VString string
  | VOther

record ExplanationFactor =
  Name :: string
  Value :: real
  Weight :: real
  Contribution :: real
  DirectionLabel :: string
  Reason :: string

record Explanation =
  Factors :: "ExplanationFactor list"
  Summary :: string

record lib =
  unmarshalFloat :: "string \<Rightarrow> real option"
  unmarshalGlobal :: "string \<Rightarrow> string + GlobalSchemaConfig"
  unmarshalTenant :: "string \<Rightarrow> string + TenantSchemaOverride"
  unmarshalSiteData :: "string \<Rightarrow> (string \<times> anyval) list option"
  marshalSchema :: "ResolvedSchema \<Rightarrow> error + string"
  marshalExplanation :: "Explanation \<Rightarrow> string option"
  marshalMetadata :: "real \<Rightarrow> string \<Rightarrow> string"
  formatFloat :: "nat \<Rightarrow> real \<Rightarrow> string"
  toUpper :: "char \<Rightarrow> char"

section \<open>Scoring engine\<close>

definition isNumericFieldType :: "FieldType \<Rightarrow> bool" where
  "isNumericFieldType fieldType =
     (fieldType = TypeNumeric \<or> fieldType = TypeInteger \<or> fieldType = TypePercentage
      \<or> fieldType = TypeIndex \<or> fieldType = TypePopulation)"

fun toFloat64 :: "lib \<Rightarrow> anyval \<Rightarrow> error + real" where
  "toFloat64 L (VFloat64 v) = Inr v"
| "toFloat64 L (VFloat32 v) = Inr v"
| "toFloat64 L (VInt v) = Inr (of_int v)"
| "toFloat64 L (VInt64 v) = Inr (of_int v)"
| "toFloat64 L (VInt32 v) = Inr (of_int v)"
| "toFloat64 L (VString s) =
     (case unmarshalFloat L s of None \<Rightarrow> Inl ErrCannotConvertString | Some num \<Rightarrow> Inr num)"
| "toFloat64 L VOther = Inl ErrUnsupportedType"

fun normalizeValue :: "real \<Rightarrow> real option \<Rightarrow> real option \<Rightarrow> Direction \<Rightarrow> real" where
  "normalizeValue v None mx direction = max 0 (min 1 (v / 100))"
| "normalizeValue v (Some minVal) None direction = max 0 (min 1 (v / 100))"
| "normalizeValue v (Some minVal) (Some maxVal) direction =
     (if maxVal = minVal then 0.5
      else let normalized = (v - minVal) / (maxVal - minVal);
               normalized = max 0 (min 1 normalized)
           in if direction = DirectionMinimize then 1 - normalized else normalized)"

fun capitalizeFrom :: "lib \<Rightarrow> char \<Rightarrow> string \<Rightarrow> string" where
  "capitalizeFrom L prev [] = []"
| "capitalizeFrom L prev (c # cs) =
     (let c' = (if prev = CHR '' '' then toUpper L c else c) in c' # capitalizeFrom L c' cs)"

fun capitalizeWords :: "lib \<Rightarrow> string \<Rightarrow> string" where
  "capitalizeWords L [] = []"
| "capitalizeWords L (c # cs) = (let c' = toUpper L c in c' # capitalizeFrom L c' cs)"

definition replaceUnderscores :: "string \<Rightarrow> string" where
  "replaceUnderscores s = map (\<lambda>c. if c = CHR ''_'' then CHR '' '' else c) s"

definition generateReasonString :: "lib \<Rightarrow> string \<Rightarrow> real \<Rightarrow> real \<Rightarrow> Direction \<Rightarrow> string" where
  "generateReasonString L fieldName v normalizedValue direction =
     (let readableName = capitalizeWords L (replaceUnderscores fieldName);
          quality = (if normalizedValue \<ge> 0.75 then ''excellent''
                     else if normalizedValue \<ge> 0.5 then ''good''
                     else if normalizedValue \<ge> 0.25 then ''fair''
                     else ''poor'')
      in if direction = DirectionMaximize
         then readableName @ '' value is '' @ formatFloat L 2 v @ '', which is '' @ quality
              @ '' for this metric (higher is better)''
         else readableName @ '' value is '' @ formatFloat L 2 v @ '', which is '' @ quality
              @ '' for this metric (lower is better)'')"

fun joinStrings :: "string \<Rightarrow> string list \<Rightarrow> string" where
  "joinStrings sep [] = []"
| "joinStrings sep [s] = s"
| "joinStrings sep (s # t # ss) = s @ sep @ joinStrings sep (t # ss)"

definition generateSummary :: "lib \<Rightarrow> ExplanationFactor list \<Rightarrow> real \<Rightarrow> string" where
  "generateSummary L factors finalScore =
     (if factors = [] then ''No scoring factors contributed to this site's score.''
      else let topFactors = map Name (filter (\<lambda>f. Contribution f > 0) (take 3 factors))
           in if topFactors = []
              then ''Final score is '' @ formatFloat L 1 finalScore
                   @ '' based on weighted factor analysis.''
              else let summary = ''Final score is '' @ formatFloat L 1 finalScore @ ''.''
                   in if length topFactors = 1
                      then summary @ '' The primary contributing factor is ''
                           @ replaceUnderscores (topFactors ! 0) @ ''.''
                      else if length topFactors = 2
                      then summary @ '' Top contributing factors are ''
                           @ replaceUnderscores (topFactors ! 0) @ '' and ''
                           @ replaceUnderscores (topFactors ! 1) @ ''.''
                      else summary @ '' Top contributing factors are ''
                           @ joinStrings '', '' (map replaceUnderscores (butlast topFactors))
                           @ '', and '' @ replaceUnderscores (last topFactors) @ ''.'')"

text \<open>\<open>resolvedSchema.Weights[fieldName]\<close>: a missing key reads as the zero value.\<close>

definition lookupWeight :: "(string \<times> real) list \<Rightarrow> string \<Rightarrow> real" where
  "lookupWeight ws fieldName = (case map_of ws fieldName of None \<Rightarrow> 0 | Some w \<Rightarrow> w)"

text \<open>
  The body of the loop of \<open>DefaultScoreFunc\<close> for one schema field: \<open>None\<close> is one of the
  four \<open>continue\<close> statements, \<open>Some\<close> the explanation factor that is appended.
\<close>

definition scoreField ::
  "lib \<Rightarrow> (string \<times> anyval) list \<Rightarrow> ResolvedSchema \<Rightarrow> string \<Rightarrow> FieldDef \<Rightarrow> ExplanationFactor option" where
  "scoreField L siteData resolvedSchema fieldName fieldDef =
     (if \<not> isNumericFieldType (fdType fieldDef) \<or> fdWeight fieldDef = 0 then None
      else let weight = lookupWeight (Weights resolvedSchema) fieldName in
        if weight = 0 then None
        else case map_of siteData fieldName of
          None \<Rightarrow> None
        | Some rawValue \<Rightarrow>
            (case toFloat64 L rawValue of
               Inl e \<Rightarrow> None
             | Inr numValue \<Rightarrow>
                 let normalizedValue =
                       normalizeValue numValue (fdMin fieldDef) (fdMax fieldDef) (fdDirection fieldDef);
                     contribution = normalizedValue * weight;
                     direction = (if fdDirection fieldDef = DirectionMinimize
                                  then ''minimize'' else ''maximize'');
                     reason = generateReasonString L fieldName numValue normalizedValue
                                (fdDirection fieldDef)
                 in Some \<lparr>Name = fieldName, Value = numValue, Weight = weight,
                          Contribution = contribution, DirectionLabel = direction,
                          Reason = reason\<rparr>))"

record score_acc =
  accFactors :: "ExplanationFactor list"
  totalWeightedScore :: real
  totalWeight :: real
  maxPossibleScore :: real

fun scoreLoop ::
  "lib \<Rightarrow> (string \<times> anyval) list \<Rightarrow> ResolvedSchema \<Rightarrow> (string \<times> FieldDef) list \<Rightarrow> score_acc \<Rightarrow> score_acc" where
  "scoreLoop L siteData resolvedSchema [] acc = acc"
| "scoreLoop L siteData resolvedSchema ((fieldName, fieldDef) # rest) acc =
     (case scoreField L siteData resolvedSchema fieldName fieldDef of
        None \<Rightarrow> scoreLoop L siteData resolvedSchema rest acc
      | Some factor \<Rightarrow>
          scoreLoop L siteData resolvedSchema rest
            \<lparr>accFactors = accFactors acc @ [factor],
             totalWeightedScore = totalWeightedScore acc + Contribution factor,
             totalWeight = totalWeight acc + Weight factor,
             maxPossibleScore = maxPossibleScore acc + Weight factor\<rparr>)"

definition emptyAcc :: score_acc where
  "emptyAcc = \<lparr>accFactors = [], totalWeightedScore = 0, totalWeight = 0, maxPossibleScore = 0\<rparr>"

text \<open>
  \<open>sort.Slice\<close> with the comparison \<open>|Contribution i| > |Contribution j|\<close>. Go's sort is
  not stable; the model takes the stable insertion sort, one of its admissible results.
\<close>

definition sortFactors :: "ExplanationFactor list \<Rightarrow> ExplanationFactor list" where
  "sortFactors fs = sort_key (\<lambda>f. - \<bar>Contribution f\<bar>) fs"

definition DefaultScoreFunc ::
  "lib \<Rightarrow> (string \<times> anyval) list \<Rightarrow> ResolvedSchema option \<Rightarrow> error + (real \<times> real \<times> Explanation)" where
  "DefaultScoreFunc L siteData resolvedSchema =
     (case resolvedSchema of
        None \<Rightarrow> Inl ErrNilSchema
      | Some rs \<Rightarrow>
          if length siteData = 0 then Inl ErrEmptySiteData
          else let acc = scoreLoop L siteData rs (Fields rs) emptyAcc;
                   rawScore = totalWeightedScore acc;
                   finalScore = (if maxPossibleScore acc > 0
                                 then (rawScore / maxPossibleScore acc) * 100 else 0);
                   finalScore = max 0 (min 100 finalScore);
                   factors = sortFactors (accFactors acc)
               in Inr (rawScore, finalScore,
                       \<lparr>Factors = factors, Summary = generateSummary L factors finalScore\<rparr>))"

section \<open>Schema resolver\<close>

text \<open>
  The two loops over \<open>global.Fields\<close> and \<open>tenant.Fields\<close> have the same body: they
  store the field definition and set the weight from the definition's own weight.
\<close>

fun copyFields :: "(string \<times> FieldDef) list \<Rightarrow> ResolvedSchema \<Rightarrow> ResolvedSchema" where
  "copyFields [] resolved = resolved"
| "copyFields ((name, fieldDef) # rest) resolved =
     copyFields rest
       (resolved\<lparr>Fields := AList.update name fieldDef (Fields resolved),
                 Weights := AList.update name (fdWeight fieldDef) (Weights resolved)\<rparr>)"

fun overrideWeights :: "(string \<times> real) list \<Rightarrow> ResolvedSchema \<Rightarrow> error + ResolvedSchema" where
  "overrideWeights [] resolved = Inr resolved"
| "overrideWeights ((name, weight) # rest) resolved =
     (if map_of (Fields resolved) name = None then Inl (ErrNonExistentField name)
      else overrideWeights rest
             (resolved\<lparr>Weights := AList.update name weight (Weights resolved)\<rparr>))"

definition Resolve :: "lib \<Rightarrow> string \<Rightarrow> string \<Rightarrow> error + ResolvedSchema" where
  "Resolve L globalConfig tenantConfig =
     (case unmarshalGlobal L globalConfig of
        Inl e \<Rightarrow> Inl (ErrGlobalParse e)
      | Inr global \<Rightarrow>
          if gSiteIDColumn global = [] then Inl ErrNoSiteIDColumn
          else if length (gFields global) = 0 then Inl ErrNoFields
          else let resolved = copyFields (gFields global)
                     \<lparr>Fields = [], SiteIDColumn = gSiteIDColumn global, Weights = []\<rparr>
               in if length tenantConfig > 0 \<and> tenantConfig \<noteq> ''null''
                  then (case unmarshalTenant L tenantConfig of
                          Inl e \<Rightarrow> Inl (ErrTenantParse e)
                        | Inr tenant \<Rightarrow>
                            let resolved = (case tSiteIDColumn tenant of
                                              None \<Rightarrow> resolved
                                            | Some c \<Rightarrow> resolved\<lparr>SiteIDColumn := c\<rparr>);
                                resolved = copyFields (tFields tenant) resolved
                            in overrideWeights (tWeights tenant) resolved)
                  else Inr resolved)"

section \<open>Idempotency claim\<close>

text \<open>
  The table \<open>idempotency_keys\<close> has the primary key \<open>(tenant_id, key, resource_type)\<close>,
  so it is a map from that triple to the \<open>resource_id\<close>. \<open>Claim\<close> sends one SQL
  statement: the insert with \<open>ON CONFLICT DO NOTHING\<close> gives the rows \<open>inserted\<close>, the
  second \<open>SELECT\<close> reads the row that was there before when nothing was inserted, and
  \<open>Scan\<close> takes the first row of the union. The statement is one step on the table;
  \<open>fault\<close> is an error of the connection pool, returned with the table untouched.
  \<open>CleanExpired\<close> is declared in the repository and called nowhere, so the table changes
  through \<open>Claim\<close> only.
\<close>

type_synonym claimKey = "uuid \<times> string \<times> string"

type_synonym idempotency_keys = "claimKey \<Rightarrow> uuid option"

record IdempotencyResult =
  AlreadyExists :: bool
  ResourceID :: uuid

definition Claim ::
  "error option \<Rightarrow> idempotency_keys \<Rightarrow> uuid \<Rightarrow> string \<Rightarrow> string \<Rightarrow> uuid
     \<Rightarrow> (error + IdempotencyResult) \<times> idempotency_keys" where
  "Claim fault tbl tenantID key resourceType resourceID =
     (if key = [] then (Inl ErrEmptyKey, tbl)
      else case fault of
        Some e \<Rightarrow> (Inl e, tbl)
      | None \<Rightarrow>
          let k = (tenantID, key, resourceType);
              inserted = (case tbl k of None \<Rightarrow> [(resourceID, False)] | Some r \<Rightarrow> []);
              tbl' = (case tbl k of None \<Rightarrow> tbl(k \<mapsto> resourceID) | Some r \<Rightarrow> tbl);
              existing = (if inserted = []
                          then (case tbl k of None \<Rightarrow> [] | Some r \<Rightarrow> [(r, True)])
                          else []);
              rows = inserted @ existing
          in case rows of
               [] \<Rightarrow> (Inl ErrUnexpectedEmptyResult, tbl')
             | (rid, ex) # others \<Rightarrow> (Inr \<lparr>AlreadyExists = ex, ResourceID = rid\<rparr>, tbl'))"

text \<open>
  Callers that run side by side reach the table as whole statements in some order:
  \<open>runClaims\<close> runs such an order and collects what each caller is answered.
\<close>

record claimCall =
  ccFault :: "error option"
  ccTenant :: uuid
  ccKey :: string
  ccType :: string
  ccResource :: uuid

definition callKey :: "claimCall \<Rightarrow> claimKey" where
  "callKey c = (ccTenant c, ccKey c, ccType c)"

fun runClaims ::
  "idempotency_keys \<Rightarrow> claimCall list \<Rightarrow> (error + IdempotencyResult) list \<times> idempotency_keys" where
  "runClaims tbl [] = ([], tbl)"
| "runClaims tbl (c # cs) =
     (let (r, tbl1) = Claim (ccFault c) tbl (ccTenant c) (ccKey c) (ccType c) (ccResource c);
          (rs, tbl2) = runClaims tbl1 cs
      in (r # rs, tbl2))"

section \<open>Run pipeline\<close>

subsection \<open>Records and the store\<close>

text \<open>
  Of each struct the fields the pipeline reads or writes are kept; timestamps are left
  out. The store holds the rows of \<open>scoring_runs\<close> by run id, the rows of
  \<open>recommendations\<close> and those of \<open>schema_config_snapshots\<close> in insertion order.
\<close>

record SchemaConfig =
  scID :: uuid
  scConfig :: string

record SiteRecord =
  srSiteID :: string
  srSiteName :: string
  srData :: string

record ScoringRun =
  runID :: uuid
  runUploadID :: uuid
  runTenantID :: uuid
  runModelVersion :: string
  runSchemaConfigSnapshotID :: "uuid option"

record Recommendation =
  recID :: uuid
  recRunID :: uuid
  recTenantID :: uuid
  SiteID :: string
  SiteName :: string
  Ranking :: int
  FinalScore :: real
  RawScore :: real
  ComponentScores :: string
  Metadata :: string

record SchemaConfigSnapshot =
  snapID :: uuid
  snapRunID :: uuid
  snapSchemaConfigID :: uuid
  snapUploadID :: "uuid option"
  snapConfig :: string
  snapData :: string

record run_row =
  rowStatus :: string
  rowScoredCount :: "int option"
  rowLastError :: "string option"
  rowDurationMs :: "int option"
  rowAttempt :: int

record store =
  scoring_runs :: "uuid \<Rightarrow> run_row option"
  recommendations :: "Recommendation list"
  schema_config_snapshots :: "SchemaConfigSnapshot list"

text \<open>The repository calls a pipeline function issues, in order.\<close>

datatype call =
    CallUpdateStatus uuid string "int option" "string option" "int option"
  | CallIncrementAttempt uuid
  | CallGetGlobalActive
  | CallGetTenantActive uuid
  | CallCreateSnapshot SchemaConfigSnapshot
  | CallGetByUpload uuid
  | CallBulkInsert "Recommendation list"

text \<open>
  What the outside world answers during one attempt: the result of each read, whether
  each write fails (\<open>None\<close>: the store accepts it), the fresh ids, the elapsed time,
  and whether the context is cancelled during the backoff wait after the attempt.
\<close>

record attempt_env =
  envIncrementAttempt :: "error option"
  envUpdateRunning :: "error option"
  envGlobalActive :: "error + SchemaConfig option"
  envTenantActive :: "error + SchemaConfig option"
  envSnapshotID :: uuid
  envCreateSnapshot :: "error option"
  envSiteRecords :: "error + SiteRecord list"
  envRecIDs :: "nat \<Rightarrow> uuid"
  envBulkInsert :: "error option"
  envUpdateSucceeded :: "error option"
  envUpdateFailed :: "error option"
  envDurationMs :: int
  envCtxDone :: "error option"

record Pipeline =
  scoreFunc :: "(string \<times> anyval) list \<Rightarrow> ResolvedSchema option
                  \<Rightarrow> error + (real \<times> real \<times> Explanation)"
  maxRetries :: int

definition NewPipeline ::
  "lib \<Rightarrow> ((string \<times> anyval) list \<Rightarrow> ResolvedSchema option
            \<Rightarrow> error + (real \<times> real \<times> Explanation)) option \<Rightarrow> int \<Rightarrow> Pipeline" where
  "NewPipeline L sf retries =
     \<lparr>scoreFunc = (case sf of None \<Rightarrow> DefaultScoreFunc L | Some f \<Rightarrow> f),
      maxRetries = retries\<rparr>"

record exec_result =
  exErr :: "error option"
  exStore :: store
  exRun :: ScoringRun
  exCalls :: "call list"

subsection \<open>Error texts\<close>

fun errorString :: "error \<Rightarrow> string" where
  "errorString ErrNilSchema = ''resolved schema cannot be nil''"
| "errorString ErrEmptySiteData = ''site data cannot be empty''"
| "errorString ErrCannotConvertString = ''cannot convert string to float64''"
| "errorString ErrUnsupportedType = ''unsupported type for numeric conversion''"
| "errorString (ErrGlobalParse e) = ''failed to parse global schema config: '' @ e"
| "errorString ErrNoSiteIDColumn = ''global schema config must specify site_id_column''"
| "errorString ErrNoFields = ''global schema config must specify at least one field''"
| "errorString (ErrTenantParse e) = ''failed to parse tenant schema override: '' @ e"
| "errorString (ErrNonExistentField n) = ''cannot override weight for non-existent field: '' @ n"
| "errorString ErrEmptyKey = ''idempotency key cannot be empty''"
| "errorString ErrUnexpectedEmptyResult = ''unexpected empty result from idempotency claim''"
| "errorString ErrRunNotFound = ''scoring run not found''"
| "errorString ErrNoGlobalConfig = ''no active global schema configuration found''"
| "errorString (ErrStore m) = m"
| "errorString (ErrContext m) = m"
| "errorString (ErrRetriesExhausted m) = m"





subsection \<open>Run repository\<close>

definition coalesce :: "'a option \<Rightarrow> 'a option \<Rightarrow> 'a option" where
  "coalesce new old = (case new of None \<Rightarrow> old | Some v \<Rightarrow> Some v)"

definition UpdateStatus ::
  "error option \<Rightarrow> store \<Rightarrow> uuid \<Rightarrow> string \<Rightarrow> int option \<Rightarrow> string option \<Rightarrow> int option
     \<Rightarrow> error option \<times> store" where
  "UpdateStatus fault st runId status scoredCount lastError durationMs =
     (case fault of
        Some e \<Rightarrow> (Some e, st)
      | None \<Rightarrow>
          (case scoring_runs st runId of
             None \<Rightarrow> (Some ErrRunNotFound, st)
           | Some row \<Rightarrow>
               (None, st\<lparr>scoring_runs := (scoring_runs st)(runId \<mapsto>
                  row\<lparr>rowStatus := status,
                      rowScoredCount := coalesce scoredCount (rowScoredCount row),
                      rowLastError := coalesce lastError (rowLastError row),
                      rowDurationMs := coalesce durationMs (rowDurationMs row)\<rparr>)\<rparr>)))"


definition CreateSnapshot :: "error option \<Rightarrow> store \<Rightarrow> SchemaConfigSnapshot \<Rightarrow> error option \<times> store" where
  "CreateSnapshot fault st snapshot =
     (case fault of
        Some e \<Rightarrow> (Some e, st)
      | None \<Rightarrow> (None, st\<lparr>schema_config_snapshots := schema_config_snapshots st @ [snapshot]\<rparr>))"

text \<open>
  \<open>BulkInsert\<close> returns at once on an empty list; otherwise it sends one batch, which
  the store takes whole or refuses whole.
\<close>

definition BulkInsert :: "error option \<Rightarrow> store \<Rightarrow> Recommendation list \<Rightarrow> error option \<times> store" where
  "BulkInsert fault st recs =
     (if length recs = 0 then (None, st)
      else case fault of
        Some e \<Rightarrow> (Some e, st)
      | None \<Rightarrow> (None, st\<lparr>recommendations := recommendations st @ recs\<rparr>))"

subsection \<open>Sorting and ranking\<close>

function sortInner :: "nat \<Rightarrow> nat \<Rightarrow> Recommendation list \<Rightarrow> Recommendation list" where
  "sortInner i j recs =
     (if j < length recs
      then sortInner i (j + 1)
             (if FinalScore (recs ! j) > FinalScore (recs ! i)
              then recs[i := recs ! j, j := recs ! i] else recs)
      else recs)"
  by pat_completeness auto
termination
  by (relation "measure (\<lambda>(i, j, recs). length recs - j)") auto

declare sortInner.simps [simp del]

lemma length_sortInner: "length (sortInner i j recs) = length recs"
proof (induction i j recs rule: sortInner.induct)
  case (1 i j recs)
  show ?case
  proof (cases "j < length recs")
    case True
    then show ?thesis using 1 by (subst sortInner.simps) simp
  next
    case False
    then show ?thesis by (subst sortInner.simps) simp
  qed
qed

function sortOuter :: "nat \<Rightarrow> Recommendation list \<Rightarrow> Recommendation list" where
  "sortOuter i recs =
     (if i < length recs then sortOuter (i + 1) (sortInner i (i + 1) recs) else recs)"
  by pat_completeness auto
termination
  by (relation "measure (\<lambda>(i, recs). length recs - i)") (auto simp: length_sortInner)

declare sortOuter.simps [simp del]

definition sortRecommendationsByScore :: "Recommendation list \<Rightarrow> Recommendation list" where
  "sortRecommendationsByScore recs = sortOuter 0 recs"

text \<open>\<open>for i := range recommendations { recommendations[i].Ranking = i + 1 }\<close>\<close>

fun assignRankings :: "nat \<Rightarrow> Recommendation list \<Rightarrow> Recommendation list" where
  "assignRankings i [] = []"
| "assignRankings i (r # rs) = r\<lparr>Ranking := int i + 1\<rparr> # assignRankings (Suc i) rs"

subsection \<open>One attempt\<close>

definition handleExecutionError ::
  "attempt_env \<Rightarrow> store \<Rightarrow> ScoringRun \<Rightarrow> call list \<Rightarrow> error \<Rightarrow> exec_result" where
  "handleExecutionError env st run calls err =
     (let errorMsg = errorString err;
          (updateErr, st') = UpdateStatus (envUpdateFailed env) st (runID run) ''failed''
                               None (Some errorMsg) None
      in \<lparr>exErr = Some err, exStore = st', exRun = run,
          exCalls = calls @ [CallUpdateStatus (runID run) ''failed'' None (Some errorMsg) None]\<rparr>)"

text \<open>
  Steps a to d of \<open>Execute\<close>: mark the run running, resolve the schema, store the
  snapshot, fetch the site records. \<open>Inl\<close> is a \<open>return p.handleExecutionError(...)\<close>.
\<close>

record fetched =
  fSchema :: ResolvedSchema
  fRecords :: "SiteRecord list"
  fStore :: store
  fRun :: ScoringRun
  fCalls :: "call list"

definition fetchInputs :: "lib \<Rightarrow> attempt_env \<Rightarrow> store \<Rightarrow> ScoringRun \<Rightarrow> exec_result + fetched" where
  "fetchInputs L env st run =
     (let callsA = [CallUpdateStatus (runID run) ''running'' None None None];
          (errA, stA) = UpdateStatus (envUpdateRunning env) st (runID run) ''running''
                          None None None
      in case errA of
        Some e \<Rightarrow> Inl (handleExecutionError env stA run callsA e)
      | None \<Rightarrow>
         (let callsB = callsA @ [CallGetGlobalActive] in
          case envGlobalActive env of
            Inl e \<Rightarrow> Inl (handleExecutionError env stA run callsB e)
          | Inr None \<Rightarrow> Inl (handleExecutionError env stA run callsB ErrNoGlobalConfig)
          | Inr (Some globalConfig) \<Rightarrow>
             (let callsB' = callsB @ [CallGetTenantActive (runTenantID run)] in
              case envTenantActive env of
                Inl e \<Rightarrow> Inl (handleExecutionError env stA run callsB' e)
              | Inr tenantConfig \<Rightarrow>
                 (let tenantConfigBytes =
                        (case tenantConfig of None \<Rightarrow> [] | Some tc \<Rightarrow> scConfig tc) in
                  case Resolve L (scConfig globalConfig) tenantConfigBytes of
                    Inl e \<Rightarrow> Inl (handleExecutionError env stA run callsB' e)
                  | Inr resolvedSchema \<Rightarrow>
                     (case marshalSchema L resolvedSchema of
                        Inl e \<Rightarrow> Inl (handleExecutionError env stA run callsB' e)
                      | Inr snapshotData \<Rightarrow>
                         (let snapshot =
                                \<lparr>snapID = envSnapshotID env, snapRunID = runID run,
                                 snapSchemaConfigID = scID globalConfig,
                                 snapUploadID = Some (runUploadID run),
                                 snapConfig = scConfig globalConfig,
                                 snapData = snapshotData\<rparr>;
                              callsC = callsB' @ [CallCreateSnapshot snapshot];
                              (errC, stC) = CreateSnapshot (envCreateSnapshot env) stA snapshot
                          in case errC of
                            Some e \<Rightarrow> Inl (handleExecutionError env stC run callsC e)
                          | None \<Rightarrow>
                             (let run' = run\<lparr>runSchemaConfigSnapshotID :=
                                               Some (envSnapshotID env)\<rparr>;
                                  callsD = callsC @ [CallGetByUpload (runUploadID run')]
                              in case envSiteRecords env of
                                Inl e \<Rightarrow> Inl (handleExecutionError env stC run' callsD e)
                              | Inr siteRecords \<Rightarrow>
                                  Inr \<lparr>fSchema = resolvedSchema, fRecords = siteRecords,
                                       fStore = stC, fRun = run', fCalls = callsD\<rparr>)))))))"

text \<open>
  Step e: the loop over the site records. A record whose data does not parse, or that
  the score function refuses, is skipped. \<open>idx\<close> is the loop index; it picks the fresh
  id of the recommendation.
\<close>

fun scoreSites ::
  "lib \<Rightarrow> Pipeline \<Rightarrow> attempt_env \<Rightarrow> ScoringRun \<Rightarrow> ResolvedSchema \<Rightarrow> nat \<Rightarrow> SiteRecord list
     \<Rightarrow> Recommendation list \<Rightarrow> Recommendation list" where
  "scoreSites L P env run resolvedSchema idx [] recs = recs"
| "scoreSites L P env run resolvedSchema idx (siteRecord # rest) recs =
     (case unmarshalSiteData L (srData siteRecord) of
        None \<Rightarrow> scoreSites L P env run resolvedSchema (Suc idx) rest recs
      | Some siteData \<Rightarrow>
         (case scoreFunc P siteData (Some resolvedSchema) of
            Inl e \<Rightarrow> scoreSites L P env run resolvedSchema (Suc idx) rest recs
          | Inr (rawScore, finalScore, explanation) \<Rightarrow>
             (let explanationJSON = (case marshalExplanation L explanation of
                                       None \<Rightarrow> ''{}'' | Some j \<Rightarrow> j);
                  metadataJSON = marshalMetadata L rawScore (runModelVersion run);
                  rec = \<lparr>recID = envRecIDs env idx, recRunID = runID run,
                         recTenantID = runTenantID run, SiteID = srSiteID siteRecord,
                         SiteName = srSiteName siteRecord, Ranking = 0,
                         FinalScore = finalScore, RawScore = rawScore,
                         ComponentScores = explanationJSON, Metadata = metadataJSON\<rparr>
              in scoreSites L P env run resolvedSchema (Suc idx) rest (recs @ [rec]))))"

definition Execute :: "lib \<Rightarrow> Pipeline \<Rightarrow> attempt_env \<Rightarrow> store \<Rightarrow> ScoringRun \<Rightarrow> exec_result" where
  "Execute L P env st run =
     (case fetchInputs L env st run of
        Inl failed \<Rightarrow> failed
      | Inr inp \<Rightarrow>
         if length (fRecords inp) = 0
         then (let (err, st') = UpdateStatus (envUpdateSucceeded env) (fStore inp)
                                  (runID (fRun inp)) ''succeeded'' (Some 0) None
                                  (Some (envDurationMs env))
               in \<lparr>exErr = None, exStore = st', exRun = fRun inp,
                   exCalls = fCalls inp @
                     [CallUpdateStatus (runID (fRun inp)) ''succeeded'' (Some 0) None
                        (Some (envDurationMs env))]\<rparr>)
         else (let scored = scoreSites L P env (fRun inp) (fSchema inp) 0 (fRecords inp) [];
                   ranked = assignRankings 0 (sortRecommendationsByScore scored);
                   callsG = fCalls inp @ [CallBulkInsert ranked];
                   (errG, stG) = BulkInsert (envBulkInsert env) (fStore inp) ranked
               in case errG of
                 Some e \<Rightarrow> handleExecutionError env stG (fRun inp) callsG e
               | None \<Rightarrow>
                  (let scoredCount = int (length ranked);
                       callsH = callsG @
                         [CallUpdateStatus (runID (fRun inp)) ''succeeded'' (Some scoredCount)
                            None (Some (envDurationMs env))];
                       (errH, stH) = UpdateStatus (envUpdateSucceeded env) stG
                                       (runID (fRun inp)) ''succeeded'' (Some scoredCount) None
                                       (Some (envDurationMs env))
                   in \<lparr>exErr = errH, exStore = stH, exRun = fRun inp, exCalls = callsH\<rparr>)))"

subsection \<open>Retry wrapper\<close>







section \<open>Auxiliary notions\<close>

text \<open>The factors the scoring loop appends for a list of schema fields, in order.\<close>

definition fieldFactors :: "lib \<Rightarrow> (string \<times> anyval) list \<Rightarrow> ResolvedSchema \<Rightarrow> (string \<times> FieldDef) list \<Rightarrow> ExplanationFactor list" where
  "fieldFactors L sd rs fs = List.map_filter (\<lambda>(n, fd). scoreField L sd rs n fd) fs"

text \<open>Non-increasing order.\<close>

abbreviation desc :: "real list \<Rightarrow> bool" where
  "desc xs \<equiv> sorted_wrt (\<lambda>a b. a \<ge> b) xs"






section \<open>Example data\<close>

text \<open>
  A schema with the single field \<open>rate\<close>, a tenant override of its weight, a library
  whose decoders return them, and a store holding one queued run.
\<close>

definition exampleField :: "real \<Rightarrow> real option \<Rightarrow> real option \<Rightarrow> Direction \<Rightarrow> FieldDef" where
  "exampleField w mn mx d =
     \<lparr>fdType = TypePercentage, fdRequired = False, fdMin = mn, fdMax = mx, fdWeight = w,
      fdDirection = d, fdDescription = []\<rparr>"

definition exampleSchema :: "FieldDef \<Rightarrow> real \<Rightarrow> ResolvedSchema" where
  "exampleSchema fd w = \<lparr>Fields = [(''rate'', fd)], SiteIDColumn = ''site_id'', Weights = [(''rate'', w)]\<rparr>"

definition exampleRec :: "string \<Rightarrow> real \<Rightarrow> Recommendation" where
  "exampleRec site score =
     \<lparr>recID = 0, recRunID = 0, recTenantID = 0, SiteID = site, SiteName = site, Ranking = 0,
      FinalScore = score, RawScore = score, ComponentScores = ''{}'', Metadata = ''{}''\<rparr>"

definition exampleGlobal :: GlobalSchemaConfig where
  "exampleGlobal =
     \<lparr>gFields = [(''rate'', exampleField 1 (Some 0) (Some 100) DirectionMaximize)],
      gSiteIDColumn = ''site_id''\<rparr>"

definition exampleTenant :: TenantSchemaOverride where
  "exampleTenant = \<lparr>tFields = [], tSiteIDColumn = None, tWeights = [(''rate'', 2)]\<rparr>"

definition exampleLib :: lib where
  "exampleLib =
     \<lparr>unmarshalFloat = (\<lambda>s. None),
      unmarshalGlobal = (\<lambda>s. Inr exampleGlobal),
      unmarshalTenant = (\<lambda>s. Inr exampleTenant),
      unmarshalSiteData = (\<lambda>s. if s = ''low'' then Some [(''rate'', VFloat64 25)]
                                else if s = ''high'' then Some [(''rate'', VFloat64 75)]
                                else None),
      marshalSchema = (\<lambda>rs. Inr ''{}''),
      marshalExplanation = (\<lambda>e. Some ''{}''),
      marshalMetadata = (\<lambda>r m. ''{}''),
      formatFloat = (\<lambda>n r. ''0''),
      toUpper = (\<lambda>c. c)\<rparr>"

definition exampleSite :: "string \<Rightarrow> string \<Rightarrow> SiteRecord" where
  "exampleSite site d = \<lparr>srSiteID = site, srSiteName = site, srData = d\<rparr>"

definition exampleEnv :: "error + SiteRecord list \<Rightarrow> attempt_env" where
  "exampleEnv recs =
     \<lparr>envIncrementAttempt = None, envUpdateRunning = None,
      envGlobalActive = Inr (Some \<lparr>scID = 7, scConfig = ''g''\<rparr>),
      envTenantActive = Inr (Some \<lparr>scID = 8, scConfig = ''t''\<rparr>),
      envSnapshotID = 9, envCreateSnapshot = None, envSiteRecords = recs,
      envRecIDs = (\<lambda>i. 100 + i), envBulkInsert = None, envUpdateSucceeded = None,
      envUpdateFailed = None, envDurationMs = 5, envCtxDone = None\<rparr>"

definition exampleRun :: ScoringRun where
  "exampleRun = \<lparr>runID = 1, runUploadID = 2, runTenantID = 3, runModelVersion = ''v1'',
                  runSchemaConfigSnapshotID = None\<rparr>"

definition exampleStore :: store where
  "exampleStore =
     \<lparr>scoring_runs = [1 \<mapsto> \<lparr>rowStatus = ''queued'', rowScoredCount = None,
                               rowLastError = None, rowDurationMs = None, rowAttempt = 0\<rparr>],
      recommendations = [], schema_config_snapshots = []\<rparr>"

definition examplePipeline :: Pipeline where
  "examplePipeline = NewPipeline exampleLib None 2"

definition threeSites :: "SiteRecord list" where
  "threeSites = [exampleSite ''a'' ''low'', exampleSite ''b'' ''low'', exampleSite ''c'' ''high'']"

text \<open>
  A global schema with three fields, a tenant override that redefines two of them and
  sets one standalone weight; a claim call; a world in which fetching the site records
  always fails, and a pipeline that retries once.
\<close>

definition layeredGlobal :: GlobalSchemaConfig where
  "layeredGlobal =
     \<lparr>gFields = [(''rate'', exampleField 1 (Some 0) (Some 100) DirectionMaximize),
                 (''pop'', exampleField 3 None None DirectionMaximize),
                 (''idx'', exampleField 4 (Some 0) (Some 10) DirectionMinimize)],
      gSiteIDColumn = ''site_id''\<rparr>"

definition layeredTenant :: TenantSchemaOverride where
  "layeredTenant =
     \<lparr>tFields = [(''rate'', exampleField 6 (Some 0) (Some 50) DirectionMaximize),
                 (''pop'', exampleField 5 None None DirectionMaximize)],
      tSiteIDColumn = None,
      tWeights = [(''rate'', 2)]\<rparr>"

definition layeredLib :: lib where
  "layeredLib = exampleLib\<lparr>unmarshalGlobal := (\<lambda>s. Inr layeredGlobal),
                           unmarshalTenant := (\<lambda>s. Inr layeredTenant)\<rparr>"

definition zeroWeightLib :: lib where
  "zeroWeightLib = exampleLib\<lparr>unmarshalGlobal := (\<lambda>s. Inr
      \<lparr>gFields = [(''rate'', exampleField 0 (Some 0) (Some 100) DirectionMaximize)],
       gSiteIDColumn = ''site_id''\<rparr>)\<rparr>"

definition exampleCall :: "uuid \<Rightarrow> claimCall" where
  "exampleCall rid = \<lparr>ccFault = None, ccTenant = 1, ccKey = ''k1'', ccType = ''upload'',
                      ccResource = rid\<rparr>"



section \<open>Properties of the scoring engine\<close>









lemma fieldFactors_Nil: "fieldFactors L sd rs [] = []"
  by (simp add: fieldFactors_def map_filter_simps)

lemma fieldFactors_Cons:
  "fieldFactors L sd rs ((n, fd) # fs) =
     (case scoreField L sd rs n fd of None \<Rightarrow> fieldFactors L sd rs fs
      | Some f \<Rightarrow> f # fieldFactors L sd rs fs)"
  by (simp add: fieldFactors_def map_filter_simps split: option.splits)

lemma scoreLoop_factors:
  "accFactors (scoreLoop L sd rs fs acc) = accFactors acc @ fieldFactors L sd rs fs"
  by (induction fs arbitrary: acc) (auto simp: fieldFactors_Nil fieldFactors_Cons split: option.splits)

lemma scoreLoop_total:
  "totalWeightedScore (scoreLoop L sd rs fs acc) =
     totalWeightedScore acc + sum_list (map Contribution (fieldFactors L sd rs fs))"
  by (induction fs arbitrary: acc) (auto simp: fieldFactors_Nil fieldFactors_Cons split: option.splits)

lemma scoreLoop_maxPossible:
  "maxPossibleScore (scoreLoop L sd rs fs acc) =
     maxPossibleScore acc + sum_list (map Weight (fieldFactors L sd rs fs))"
  by (induction fs arbitrary: acc) (auto simp: fieldFactors_Nil fieldFactors_Cons split: option.splits)

lemma scoreField_Name: "scoreField L sd rs n fd = Some f \<Longrightarrow> Name f = n"
  by (auto simp: scoreField_def Let_def split: if_splits option.splits sum.splits)

lemma fieldFactors_set:
  "set (fieldFactors L sd rs fs) = {f. \<exists>n fd. (n, fd) \<in> set fs \<and> scoreField L sd rs n fd = Some f}"
proof (induction fs)
  case Nil
  then show ?case by (simp add: fieldFactors_Nil)
next
  case (Cons p fs)
  obtain n fd where p: "p = (n, fd)" by (cases p)
  show ?case
  proof (cases "scoreField L sd rs n fd")
    case None
    then show ?thesis using Cons p by (fastforce simp: fieldFactors_Cons)
  next
    case (Some f)
    then show ?thesis using Cons p by (fastforce simp: fieldFactors_Cons)
  qed
qed

lemma fieldFactors_named:
  assumes "uniqueKeys fs" "(n, fd) \<in> set fs"
  shows "(f \<in> set (fieldFactors L sd rs fs) \<and> Name f = n) \<longleftrightarrow> scoreField L sd rs n fd = Some f"
proof
  assume a: "f \<in> set (fieldFactors L sd rs fs) \<and> Name f = n"
  then obtain n' fd' where h: "(n', fd') \<in> set fs" "scoreField L sd rs n' fd' = Some f"
    by (auto simp: fieldFactors_set)
  then have "n' = n" using a scoreField_Name by blast
  then have "fd' = fd" using assms h(1) unfolding uniqueKeys_def
    by (meson eq_key_imp_eq_value)
  then show "scoreField L sd rs n fd = Some f" using h \<open>n' = n\<close> by simp
next
  assume "scoreField L sd rs n fd = Some f"
  then show "f \<in> set (fieldFactors L sd rs fs) \<and> Name f = n"
    using assms(2) scoreField_Name by (auto simp: fieldFactors_set)
qed

lemma set_sortFactors: "set (sortFactors fs) = set fs"
  by (simp add: sortFactors_def)

lemma mset_sortFactors: "mset (sortFactors fs) = mset fs"
  by (simp add: sortFactors_def)

lemma sum_sortFactors: "sum_list (map g (sortFactors fs)) = (sum_list (map g fs) :: real)"
proof -
  have "sum_mset (image_mset g (mset (sortFactors fs))) = sum_mset (image_mset g (mset fs))"
    by (simp add: mset_sortFactors)
  then show ?thesis by (simp flip: sum_mset_sum_list mset_map)
qed

lemma DefaultScoreFunc_unfold:
  assumes "sd \<noteq> []"
  shows "DefaultScoreFunc L sd (Some rs) =
     Inr (sum_list (map Contribution (fieldFactors L sd rs (Fields rs))),
          max 0 (min 100 (if sum_list (map Weight (fieldFactors L sd rs (Fields rs))) > 0
            then sum_list (map Contribution (fieldFactors L sd rs (Fields rs))) /
                 sum_list (map Weight (fieldFactors L sd rs (Fields rs))) * 100 else 0)),
          \<lparr>Factors = sortFactors (fieldFactors L sd rs (Fields rs)),
           Summary = generateSummary L (sortFactors (fieldFactors L sd rs (Fields rs)))
             (max 0 (min 100 (if sum_list (map Weight (fieldFactors L sd rs (Fields rs))) > 0
            then sum_list (map Contribution (fieldFactors L sd rs (Fields rs))) /
                 sum_list (map Weight (fieldFactors L sd rs (Fields rs))) * 100 else 0)))\<rparr>)"
  using assms
  by (simp add: DefaultScoreFunc_def Let_def scoreLoop_factors scoreLoop_total scoreLoop_maxPossible emptyAcc_def)



text \<open>
  Claim C3, as amended. The loop skips a field also when the weight embedded in its
  own definition is zero, even if the effective weight in \<open>Weights\<close> is not. So, for a
  field of the schema (one entry per name) and a non-empty record: the scoring returns
  no error; a factor named after the field exists exactly when the type is numeric, the
  embedded weight and the effective weight are both non-zero, the field is present in
  the record and its value converts to a number; such a factor's contribution is the
  normalized value times the effective weight; and the raw score is the sum of the
  contributions of the factors, so a field without a factor contributes nothing.
\<close>

theorem scored_field_iff:
  assumes "siteData \<noteq> []" and "uniqueKeys (Fields rs)" and "(name, fd) \<in> set (Fields rs)"
  shows "\<exists>rawScore finalScore explanation.
     DefaultScoreFunc L siteData (Some rs) = Inr (rawScore, finalScore, explanation) \<and>
     ((\<exists>f\<in>set (Factors explanation). Name f = name) \<longleftrightarrow>
        (isNumericFieldType (fdType fd) \<and> fdWeight fd \<noteq> 0 \<and> lookupWeight (Weights rs) name \<noteq> 0 \<and>
         (\<exists>raw v. map_of siteData name = Some raw \<and> toFloat64 L raw = Inr v))) \<and>
     (\<forall>f\<in>set (Factors explanation). Name f = name \<longrightarrow>
        (\<exists>raw v. map_of siteData name = Some raw \<and> toFloat64 L raw = Inr v \<and>
           Contribution f = normalizeValue v (fdMin fd) (fdMax fd) (fdDirection fd)
                              * lookupWeight (Weights rs) name)) \<and>
     rawScore = sum_list (map Contribution (Factors explanation))"
proof -
  let ?fs = "fieldFactors L siteData rs (Fields rs)"
  have named: "\<And>f. (f \<in> set ?fs \<and> Name f = name) \<longleftrightarrow> scoreField L siteData rs name fd = Some f"
    using fieldFactors_named[OF assms(2,3)] by blast
  have gate: "(\<exists>f. scoreField L siteData rs name fd = Some f) \<longleftrightarrow>
        (isNumericFieldType (fdType fd) \<and> fdWeight fd \<noteq> 0 \<and> lookupWeight (Weights rs) name \<noteq> 0 \<and>
         (\<exists>raw v. map_of siteData name = Some raw \<and> toFloat64 L raw = Inr v))"
    by (auto simp: scoreField_def Let_def split: option.splits sum.splits)
  have contrib: "\<And>f. scoreField L siteData rs name fd = Some f \<Longrightarrow>
        (\<exists>raw v. map_of siteData name = Some raw \<and> toFloat64 L raw = Inr v \<and>
           Contribution f = normalizeValue v (fdMin fd) (fdMax fd) (fdDirection fd)
                              * lookupWeight (Weights rs) name)"
    by (auto simp: scoreField_def Let_def split: if_splits option.splits sum.splits)
  have iff: "(\<exists>f\<in>set (sortFactors ?fs). Name f = name) \<longleftrightarrow>
        (isNumericFieldType (fdType fd) \<and> fdWeight fd \<noteq> 0 \<and> lookupWeight (Weights rs) name \<noteq> 0 \<and>
         (\<exists>raw v. map_of siteData name = Some raw \<and> toFloat64 L raw = Inr v))"
    unfolding set_sortFactors gate[symmetric] using named by blast
  have all: "\<forall>f\<in>set (sortFactors ?fs). Name f = name \<longrightarrow>
        (\<exists>raw v. map_of siteData name = Some raw \<and> toFloat64 L raw = Inr v \<and>
           Contribution f = normalizeValue v (fdMin fd) (fdMax fd) (fdDirection fd)
                              * lookupWeight (Weights rs) name)"
    unfolding set_sortFactors using named contrib by blast
  show ?thesis
    unfolding DefaultScoreFunc_unfold[OF assms(1)]
    using iff all by (simp add: sum_sortFactors)
qed

text \<open>The value 25 on a scale from 0 to 100 with effective weight 2 contributes 0.5.\<close>

theorem scored_field_iff_witness:
  "\<exists>rawScore finalScore explanation.
     DefaultScoreFunc exampleLib [(''rate'', VFloat64 25)]
        (Some (exampleSchema (exampleField 1 (Some 0) (Some 100) DirectionMaximize) 2))
       = Inr (rawScore, finalScore, explanation) \<and>
     (\<exists>f\<in>set (Factors explanation). Name f = ''rate'') \<and>
     (\<forall>f\<in>set (Factors explanation). Name f = ''rate'' \<longrightarrow> Contribution f = 1 / 2) \<and>
     rawScore = sum_list (map Contribution (Factors explanation))"
proof -
  let ?fd = "exampleField 1 (Some 0) (Some 100) DirectionMaximize"
  let ?rs = "exampleSchema ?fd 2"
  have h1: "[(''rate'', VFloat64 25)] \<noteq> []" by simp
  have h2: "uniqueKeys (Fields ?rs)" by (simp add: uniqueKeys_def exampleSchema_def)
  have h3: "(''rate'', ?fd) \<in> set (Fields ?rs)" by (simp add: exampleSchema_def)
  show ?thesis
    using scored_field_iff [OF h1 h2 h3, of exampleLib]
    by (simp add: exampleSchema_def exampleField_def isNumericFieldType_def lookupWeight_def Let_def)
qed

text \<open>
  Claim C3 as stated fails. The global schema declares the numeric field \<open>rate\<close> with
  the weight 0 and the tenant sets its standalone weight to 2: in the schema \<open>Resolve\<close>
  returns the effective weight is 2, the record holds the number 50 for the field, and
  yet the field produces no factor.
\<close>

theorem scored_field_counterexample:
  "Resolve zeroWeightLib ''g'' ''t''
     = Inr (exampleSchema (exampleField 0 (Some 0) (Some 100) DirectionMaximize) 2)
   \<and> isNumericFieldType (fdType (exampleField 0 (Some 0) (Some 100) DirectionMaximize))
   \<and> lookupWeight (Weights (exampleSchema (exampleField 0 (Some 0) (Some 100) DirectionMaximize) 2)) ''rate'' = 2
   \<and> map_of [(''rate'', VFloat64 50)] ''rate'' = Some (VFloat64 50)
   \<and> toFloat64 zeroWeightLib (VFloat64 50) = Inr 50
   \<and> DefaultScoreFunc zeroWeightLib [(''rate'', VFloat64 50)]
        (Some (exampleSchema (exampleField 0 (Some 0) (Some 100) DirectionMaximize) 2))
      = Inr (0, 0, \<lparr>Factors = [], Summary = ''No scoring factors contributed to this site's score.''\<rparr>)"
  by (simp add: Resolve_def zeroWeightLib_def exampleLib_def exampleTenant_def
        DefaultScoreFunc_def exampleSchema_def exampleField_def scoreField_def
        isNumericFieldType_def lookupWeight_def emptyAcc_def sortFactors_def generateSummary_def)




text \<open>
  Claim C10. With both bounds present and equal, \<open>normalizeValue\<close> is 0.5 for every
  value and every direction. Hence every factor produced for a field with such bounds
  has the contribution 0.5 times the effective weight, whatever the value is; and the
  field does produce a factor when the loop scores it (numeric type, non-zero weights,
  present in the record with a value that converts).
\<close>

theorem equal_bounds_half:
  assumes "siteData \<noteq> []" and "uniqueKeys (Fields rs)" and "(name, fd) \<in> set (Fields rs)"
    and "fdMin fd = Some m" and "fdMax fd = Some m"
  shows "(\<forall>v' d. normalizeValue v' (Some m) (Some m) d = 0.5) \<and>
     (\<exists>rawScore finalScore explanation.
        DefaultScoreFunc L siteData (Some rs) = Inr (rawScore, finalScore, explanation) \<and>
        (\<forall>f\<in>set (Factors explanation). Name f = name \<longrightarrow>
           Contribution f = 0.5 * lookupWeight (Weights rs) name) \<and>
        (isNumericFieldType (fdType fd) \<and> fdWeight fd \<noteq> 0
           \<and> lookupWeight (Weights rs) name \<noteq> 0
           \<and> (\<exists>raw v. map_of siteData name = Some raw \<and> toFloat64 L raw = Inr v)
         \<longrightarrow> (\<exists>f\<in>set (Factors explanation). Name f = name)))"
proof -
  let ?fs = "fieldFactors L siteData rs (Fields rs)"
  have named: "\<And>f. (f \<in> set ?fs \<and> Name f = name) \<longleftrightarrow> scoreField L siteData rs name fd = Some f"
    using fieldFactors_named[OF assms(2,3)] by blast
  have f0: "isNumericFieldType (fdType fd) \<and> fdWeight fd \<noteq> 0
           \<and> lookupWeight (Weights rs) name \<noteq> 0
           \<and> (\<exists>raw v. map_of siteData name = Some raw \<and> toFloat64 L raw = Inr v)
         \<longrightarrow> (\<exists>f. scoreField L siteData rs name fd = Some f)"
    by (auto simp: scoreField_def Let_def)
  have c: "\<And>f. scoreField L siteData rs name fd = Some f \<Longrightarrow>
             Contribution f = 0.5 * lookupWeight (Weights rs) name"
    using assms(4,5)
    by (auto simp: scoreField_def Let_def split: if_splits option.splits sum.splits)
  have ex: "isNumericFieldType (fdType fd) \<and> fdWeight fd \<noteq> 0
           \<and> lookupWeight (Weights rs) name \<noteq> 0
           \<and> (\<exists>raw v. map_of siteData name = Some raw \<and> toFloat64 L raw = Inr v)
         \<longrightarrow> (\<exists>f\<in>set (sortFactors ?fs). Name f = name)"
    unfolding set_sortFactors using named f0 by blast
  have all: "\<forall>f\<in>set (sortFactors ?fs). Name f = name \<longrightarrow>
           Contribution f = 0.5 * lookupWeight (Weights rs) name"
    unfolding set_sortFactors using named c by blast
  show ?thesis
    unfolding DefaultScoreFunc_unfold[OF assms(1)]
    using ex all by simp
qed

text \<open>Both bounds 40, the value 7, the effective weight 3: the contribution is 1.5.\<close>

theorem equal_bounds_half_witness:
  "normalizeValue 7 (Some 40) (Some 40) DirectionMinimize = 0.5 \<and>
   (\<exists>rawScore finalScore explanation.
        DefaultScoreFunc exampleLib [(''rate'', VInt 7)]
          (Some (exampleSchema (exampleField 1 (Some 40) (Some 40) DirectionMinimize) 3))
          = Inr (rawScore, finalScore, explanation) \<and>
        (\<forall>f\<in>set (Factors explanation). Name f = ''rate'' \<longrightarrow> Contribution f = 3 / 2) \<and>
        (\<exists>f\<in>set (Factors explanation). Name f = ''rate''))"
proof -
  let ?fd = "exampleField 1 (Some 40) (Some 40) DirectionMinimize"
  let ?rs = "exampleSchema ?fd 3"
  have h1: "[(''rate'', VInt 7)] \<noteq> []" by simp
  have h2: "uniqueKeys (Fields ?rs)" by (simp add: uniqueKeys_def exampleSchema_def)
  have h3: "(''rate'', ?fd) \<in> set (Fields ?rs)" by (simp add: exampleSchema_def)
  have h4: "fdMin ?fd = Some 40" "fdMax ?fd = Some 40" by (simp_all add: exampleField_def)
  have g: "isNumericFieldType (fdType ?fd) \<and> fdWeight ?fd \<noteq> 0
           \<and> lookupWeight (Weights ?rs) ''rate'' \<noteq> 0
           \<and> (\<exists>raw v. map_of [(''rate'', VInt 7)] ''rate'' = Some raw
                         \<and> toFloat64 exampleLib raw = Inr v)"
    by (simp add: exampleField_def isNumericFieldType_def exampleSchema_def lookupWeight_def)
  show ?thesis
    using equal_bounds_half [OF h1 h2 h3 h4, of exampleLib] g
    by (simp add: exampleSchema_def lookupWeight_def)
qed

section \<open>Properties of the sort and the ranking\<close>

lemma sortInner_unfold_lt:
  "j < length recs \<Longrightarrow> sortInner i j recs =
     sortInner i (j + 1) (if FinalScore (recs ! j) > FinalScore (recs ! i)
              then recs[i := recs ! j, j := recs ! i] else recs)"
  by (subst sortInner.simps) simp

lemma sortInner_unfold_ge: "\<not> j < length recs \<Longrightarrow> sortInner i j recs = recs"
  by (subst sortInner.simps) simp







lemma sortOuter_unfold_lt: "i < length recs \<Longrightarrow> sortOuter i recs = sortOuter (i + 1) (sortInner i (i + 1) recs)"
  by (subst sortOuter.simps) simp

lemma sortOuter_unfold_ge: "\<not> i < length recs \<Longrightarrow> sortOuter i recs = recs"
  by (subst sortOuter.simps) simp







lemma assignRankings_nth:
  "k < length rs \<Longrightarrow> assignRankings i rs ! k = (rs ! k)\<lparr>Ranking := int (i + k) + 1\<rparr>"
proof (induction rs arbitrary: i k)
  case Nil
  then show ?case by simp
next
  case (Cons r rs)
  then show ?case by (cases k) auto
qed



lemma sortInner_id:
  "(\<forall>k. j \<le> k \<and> k < length recs \<longrightarrow> \<not> FinalScore (recs ! k) > FinalScore (recs ! i)) \<Longrightarrow>
   sortInner i j recs = recs"
proof (induction i j recs rule: sortInner.induct)
  case (1 i j recs)
  show ?case
  proof (cases "j < length recs")
    case True
    have nsw: "\<not> FinalScore (recs ! j) > FinalScore (recs ! i)" using "1.prems" True by simp
    have "sortInner i (j + 1) recs = recs"
      using "1.IH"[OF True] nsw "1.prems" by simp
    then show ?thesis using nsw by (simp add: sortInner_unfold_lt[OF True])
  next
    case False
    then show ?thesis by (simp add: sortInner_unfold_ge)
  qed
qed

lemma sortOuter_id:
  "desc (map FinalScore recs) \<Longrightarrow> sortOuter i recs = recs"
proof (induction i recs rule: sortOuter.induct)
  case (1 i recs)
  show ?case
  proof (cases "i < length recs")
    case True
    have "\<forall>k. i + 1 \<le> k \<and> k < length recs \<longrightarrow> \<not> FinalScore (recs ! k) > FinalScore (recs ! i)"
    proof (intro allI impI)
      fix k assume k: "i + 1 \<le> k \<and> k < length recs"
      have "map FinalScore recs ! i \<ge> map FinalScore recs ! k"
        using sorted_wrt_nth_less[OF "1.prems", of i k] k by simp
      then show "\<not> FinalScore (recs ! k) > FinalScore (recs ! i)" using k True by simp
    qed
    then have "sortInner i (i + 1) recs = recs" by (rule sortInner_id)
    then show ?thesis using 1 True by (simp add: sortOuter_unfold_lt)
  next
    case False
    then show ?thesis by (simp add: sortOuter_unfold_ge)
  qed
qed

section \<open>Properties of one attempt\<close>

lemma UpdateStatus_recommendations:
  "recommendations (snd (UpdateStatus fault st rid status sc le d)) = recommendations st"
  by (auto simp: UpdateStatus_def split: option.splits)

lemma UpdateStatus_ok_row:
  "UpdateStatus fault st rid status sc le d = (None, st') \<Longrightarrow>
     \<exists>row. scoring_runs st' rid = Some row \<and> rowStatus row = status
        \<and> rowScoredCount row = coalesce sc (rowScoredCount (the (scoring_runs st rid)))"
  by (auto simp: UpdateStatus_def split: option.splits)

lemma UpdateStatus_accepts:
  "scoring_runs st rid = Some row \<Longrightarrow>
     \<exists>st'. UpdateStatus None st rid status sc le d = (None, st')"
  by (auto simp: UpdateStatus_def)



lemma fetchInputs_Inr:
  assumes "fetchInputs L env st run = Inr inp"
  shows "runID (fRun inp) = runID run \<and> recommendations (fStore inp) = recommendations st
         \<and> (\<forall>recs. CallBulkInsert recs \<notin> set (fCalls inp))
         \<and> (\<exists>row. scoring_runs (fStore inp) (runID run) = Some row)
         \<and> (\<exists>rest. fCalls inp = CallUpdateStatus (runID run) ''running'' None None None # rest)"
  using assms UpdateStatus_recommendations[of "envUpdateRunning env" st "runID run" "''running''" None None None]
    UpdateStatus_ok_row[of "envUpdateRunning env" st "runID run" "''running''" None None None]
  by (auto simp: fetchInputs_def Let_def CreateSnapshot_def
      split: option.splits sum.splits prod.splits)






text \<open>
  Claim C8. When steps a to d succeed and the fetched list of site records is empty,
  \<open>Execute\<close> returns no error, leaves the stored recommendations as they were, never
  calls \<open>BulkInsert\<close>, and its last call is the status update to \<open>succeeded\<close> with the
  scored count 0; when the store accepts that update, the run's row has the status
  \<open>succeeded\<close> and the scored count 0.
\<close>

theorem Execute_empty_input:
  assumes "fetchInputs L env st run = Inr inp" and "fRecords inp = []"
  shows "exErr (Execute L P env st run) = None
     \<and> recommendations (exStore (Execute L P env st run)) = recommendations st
     \<and> (\<forall>recs. CallBulkInsert recs \<notin> set (exCalls (Execute L P env st run)))
     \<and> exCalls (Execute L P env st run) =
         fCalls inp @ [CallUpdateStatus (runID run) ''succeeded'' (Some 0) None
                         (Some (envDurationMs env))]
     \<and> (envUpdateSucceeded env = None \<longrightarrow>
          (\<exists>row. scoring_runs (exStore (Execute L P env st run)) (runID run) = Some row
             \<and> rowStatus row = ''succeeded'' \<and> rowScoredCount row = Some 0))"
proof -
  note fi = fetchInputs_Inr[OF assms(1)]
  obtain err st' where us: "UpdateStatus (envUpdateSucceeded env) (fStore inp) (runID run)
      ''succeeded'' (Some 0) None (Some (envDurationMs env)) = (err, st')"
    by (cases "UpdateStatus (envUpdateSucceeded env) (fStore inp) (runID run)
      ''succeeded'' (Some 0) None (Some (envDurationMs env))")
  have ex: "Execute L P env st run =
      \<lparr>exErr = None, exStore = st', exRun = fRun inp,
       exCalls = fCalls inp @ [CallUpdateStatus (runID run) ''succeeded'' (Some 0) None
                         (Some (envDurationMs env))]\<rparr>"
    using assms fi us by (simp add: Execute_def Let_def)
  have r: "recommendations st' = recommendations st"
    using UpdateStatus_recommendations[of "envUpdateSucceeded env" "fStore inp" "runID run"
          "''succeeded''" "Some 0" None "Some (envDurationMs env)"] us fi by simp
  have row: "envUpdateSucceeded env = None \<longrightarrow>
          (\<exists>row. scoring_runs st' (runID run) = Some row
             \<and> rowStatus row = ''succeeded'' \<and> rowScoredCount row = Some 0)"
  proof
    assume n: "envUpdateSucceeded env = None"
    from fi obtain row0 where "scoring_runs (fStore inp) (runID run) = Some row0" by blast
    then show "\<exists>row. scoring_runs st' (runID run) = Some row
             \<and> rowStatus row = ''succeeded'' \<and> rowScoredCount row = Some 0"
      using us n by (auto simp: UpdateStatus_def coalesce_def)
  qed
  show ?thesis unfolding ex using r row fi by simp
qed

lemmas example_defs = exampleGlobal_def exampleTenant_def exampleLib_def exampleSite_def
  exampleEnv_def exampleRun_def exampleStore_def examplePipeline_def exampleField_def
  exampleSchema_def NewPipeline_def

lemma Resolve_example:
  "Resolve exampleLib ''g'' ''t'' =
     Inr \<lparr>Fields = [(''rate'', exampleField 1 (Some 0) (Some 100) DirectionMaximize)],
          SiteIDColumn = ''site_id'', Weights = [(''rate'', 2)]\<rparr>"
  by (simp add: Resolve_def example_defs)

lemma score_example:
  "DefaultScoreFunc exampleLib [(''rate'', VFloat64 v)]
     (Some \<lparr>Fields = [(''rate'', exampleField 1 (Some 0) (Some 100) DirectionMaximize)],
          SiteIDColumn = ''site_id'', Weights = [(''rate'', 2)]\<rparr>) =
   Inr (normalizeValue v (Some 0) (Some 100) DirectionMaximize * 2,
        max 0 (min 100 (normalizeValue v (Some 0) (Some 100) DirectionMaximize * 2 / 2 * 100)),
        Explanation.make
          [\<lparr>Name = ''rate'', Value = v, Weight = 2,
            Contribution = normalizeValue v (Some 0) (Some 100) DirectionMaximize * 2,
            DirectionLabel = ''maximize'',
            Reason = generateReasonString exampleLib ''rate'' v
                       (normalizeValue v (Some 0) (Some 100) DirectionMaximize) DirectionMaximize\<rparr>]
          (generateSummary exampleLib
            [\<lparr>Name = ''rate'', Value = v, Weight = 2,
            Contribution = normalizeValue v (Some 0) (Some 100) DirectionMaximize * 2,
            DirectionLabel = ''maximize'',
            Reason = generateReasonString exampleLib ''rate'' v
                       (normalizeValue v (Some 0) (Some 100) DirectionMaximize) DirectionMaximize\<rparr>]
            (max 0 (min 100 (normalizeValue v (Some 0) (Some 100) DirectionMaximize * 2 / 2 * 100)))))"
  by (simp add: DefaultScoreFunc_def scoreField_def isNumericFieldType_def lookupWeight_def
      emptyAcc_def sortFactors_def Let_def exampleField_def Explanation.make_def
      del: normalizeValue.simps)

lemma Execute_example:
  "exErr (Execute exampleLib examplePipeline (exampleEnv (Inr threeSites)) exampleStore exampleRun) = None
   \<and> map (\<lambda>r. (SiteID r, FinalScore r, Ranking r))
       (recommendations (exStore (Execute exampleLib examplePipeline (exampleEnv (Inr threeSites))
          exampleStore exampleRun)))
     = [(''c'', 75, 1), (''b'', 25, 2), (''a'', 25, 3)]"
  by (simp add: Execute_def fetchInputs_def UpdateStatus_def CreateSnapshot_def BulkInsert_def
        Resolve_example score_example coalesce_def Let_def threeSites_def
        exampleEnv_def exampleRun_def exampleStore_def examplePipeline_def NewPipeline_def exampleSite_def
        exampleLib_def[THEN arg_cong, of unmarshalSiteData] exampleLib_def[THEN arg_cong, of marshalSchema]
        exampleLib_def[THEN arg_cong, of marshalExplanation] exampleLib_def[THEN arg_cong, of marshalMetadata]
        sortRecommendationsByScore_def sortOuter.simps sortInner.simps)

lemma fetchInputs_example:
  "\<exists>inp. fetchInputs exampleLib (exampleEnv (Inr [])) exampleStore exampleRun = Inr inp
         \<and> fRecords inp = []"
  by (simp add: fetchInputs_def UpdateStatus_def CreateSnapshot_def Resolve_example coalesce_def
        Let_def exampleEnv_def exampleRun_def exampleStore_def
        exampleLib_def[THEN arg_cong, of marshalSchema])


text \<open>The example run with no site records.\<close>

theorem Execute_empty_input_witness:
  "exErr (Execute exampleLib examplePipeline (exampleEnv (Inr [])) exampleStore exampleRun) = None
   \<and> recommendations (exStore (Execute exampleLib examplePipeline (exampleEnv (Inr []))
        exampleStore exampleRun)) = []
   \<and> (\<exists>row. scoring_runs (exStore (Execute exampleLib examplePipeline (exampleEnv (Inr []))
                 exampleStore exampleRun)) 1 = Some row
          \<and> rowStatus row = ''succeeded'' \<and> rowScoredCount row = Some 0)"
proof -
  obtain inp where i: "fetchInputs exampleLib (exampleEnv (Inr [])) exampleStore exampleRun = Inr inp"
    "fRecords inp = []" using fetchInputs_example by blast
  show ?thesis
    using Execute_empty_input[OF i, of examplePipeline]
    by (simp add: exampleStore_def exampleRun_def exampleEnv_def)
qed

text \<open>
  Claim C6, as amended. The sort exchanges entries in place and does not keep tied
  results in input order in general. When the scored results already arrive in
  non-increasing order of final score (in particular when all scores are equal), the
  sort changes nothing: the result at input position \<open>k\<close> receives the ranking \<open>k + 1\<close>,
  so among tied results the earlier one has the smaller ranking.
\<close>

theorem sorted_input_keeps_order:
  assumes "sorted_wrt (\<lambda>a b. a \<ge> b) (map FinalScore recs)"
  shows "sortRecommendationsByScore recs = recs
         \<and> (\<forall>k<length recs. assignRankings 0 (sortRecommendationsByScore recs) ! k
                = (recs ! k)\<lparr>Ranking := int k + 1\<rparr>)"
proof -
  have s: "sortRecommendationsByScore recs = recs"
    unfolding sortRecommendationsByScore_def using assms by (rule sortOuter_id)
  show ?thesis unfolding s using assignRankings_nth[of _ recs 0] by simp
qed

text \<open>The scores 2, 1, 1 in input order: the two tied results keep their order.\<close>

theorem sorted_input_keeps_order_witness:
  "map SiteID (assignRankings 0 (sortRecommendationsByScore
       [exampleRec ''c'' 2, exampleRec ''a'' 1, exampleRec ''b'' 1])) = [''c'', ''a'', ''b'']"
proof -
  let ?recs = "[exampleRec ''c'' 2, exampleRec ''a'' 1, exampleRec ''b'' 1]"
  have h: "sorted_wrt (\<lambda>a b. a \<ge> b) (map FinalScore ?recs)" by (simp add: exampleRec_def)
  show ?thesis
    using sorted_input_keeps_order[OF h] by (simp add: exampleRec_def)
qed

text \<open>
  Claim C6 as stated fails: the sites \<open>a\<close>, \<open>b\<close>, \<open>c\<close> arrive in this order with the
  final scores 25, 25 and 75; one execution ranks \<open>c\<close> first, \<open>b\<close> second and \<open>a\<close> third,
  although \<open>a\<close> came before \<open>b\<close> with the same score.
\<close>

theorem tie_order_counterexample:
  "map srSiteID threeSites = [''a'', ''b'', ''c'']
   \<and> map (\<lambda>r. (SiteID r, FinalScore r, Ranking r))
       (recommendations (exStore (Execute exampleLib examplePipeline (exampleEnv (Inr threeSites))
          exampleStore exampleRun)))
     = [(''c'', 75, 1), (''b'', 25, 2), (''a'', 25, 3)]"
  using Execute_example by (simp add: threeSites_def exampleSite_def)

section \<open>Properties of the schema resolver\<close>

lemma copyFields_Weights:
  "uniqueKeys fs \<Longrightarrow>
   map_of (Weights (copyFields fs r)) n =
     (case map_of fs n of Some fd \<Rightarrow> Some (fdWeight fd) | None \<Rightarrow> map_of (Weights r) n)"
proof (induction fs arbitrary: r)
  case Nil
  then show ?case by simp
next
  case (Cons p fs)
  obtain a fd where p: "p = (a, fd)" by (cases p)
  have u: "uniqueKeys fs" and na: "a \<notin> fst ` set fs"
    using Cons.prems p by (auto simp: uniqueKeys_def)
  have none: "map_of fs a = None" using na by (simp add: map_of_eq_None_iff)
  show ?case
    using Cons.IH[OF u, of "r\<lparr>Fields := AList.update a fd (Fields r),
                 Weights := AList.update a (fdWeight fd) (Weights r)\<rparr>"] p none
    by (auto simp: update_conv' split: option.splits)
qed

lemma copyFields_Fields:
  "uniqueKeys fs \<Longrightarrow>
   map_of (Fields (copyFields fs r)) n =
     (case map_of fs n of Some fd \<Rightarrow> Some fd | None \<Rightarrow> map_of (Fields r) n)"
proof (induction fs arbitrary: r)
  case Nil
  then show ?case by simp
next
  case (Cons p fs)
  obtain a fd where p: "p = (a, fd)" by (cases p)
  have u: "uniqueKeys fs" and na: "a \<notin> fst ` set fs"
    using Cons.prems p by (auto simp: uniqueKeys_def)
  have none: "map_of fs a = None" using na by (simp add: map_of_eq_None_iff)
  show ?case
    using Cons.IH[OF u, of "r\<lparr>Fields := AList.update a fd (Fields r),
                 Weights := AList.update a (fdWeight fd) (Weights r)\<rparr>"] p none
    by (auto simp: update_conv' split: option.splits)
qed

lemma copyFields_SiteIDColumn: "SiteIDColumn (copyFields fs r) = SiteIDColumn r"
  by (induction fs arbitrary: r) auto

lemma overrideWeights_Fields:
  "overrideWeights ws r = Inr r' \<Longrightarrow> Fields r' = Fields r"
  by (induction ws arbitrary: r) (auto split: if_splits)

lemma overrideWeights_Weights:
  "uniqueKeys ws \<Longrightarrow> overrideWeights ws r = Inr r' \<Longrightarrow>
   map_of (Weights r') n = (case map_of ws n of Some w \<Rightarrow> Some w | None \<Rightarrow> map_of (Weights r) n)"
proof (induction ws arbitrary: r)
  case Nil
  then show ?case by simp
next
  case (Cons p ws)
  obtain a w where p: "p = (a, w)" by (cases p)
  have u: "uniqueKeys ws" and na: "a \<notin> fst ` set ws"
    using Cons.prems p by (auto simp: uniqueKeys_def)
  have none: "map_of ws a = None" using na by (simp add: map_of_eq_None_iff)
  have ex: "map_of (Fields r) a \<noteq> None"
    and rec: "overrideWeights ws (r\<lparr>Weights := AList.update a w (Weights r)\<rparr>) = Inr r'"
    using Cons.prems(2) p by (auto split: if_splits)
  show ?case
    using Cons.IH[OF u rec] p none
    by (auto simp: update_conv' split: option.splits)
qed

lemma overrideWeights_fails:
  "(n, w) \<in> set ws \<Longrightarrow> map_of (Fields r) n = None \<Longrightarrow> \<exists>m. overrideWeights ws r = Inl (ErrNonExistentField m)"
proof (induction ws arbitrary: r)
  case Nil
  then show ?case by simp
next
  case (Cons p ws)
  obtain a v where p: "p = (a, v)" by (cases p)
  show ?case
  proof (cases "map_of (Fields r) a = None")
    case True
    then show ?thesis using p by simp
  next
    case False
    then have "(n, w) \<in> set ws" using Cons.prems p by auto
    then show ?thesis using Cons.IH[of "r\<lparr>Weights := AList.update a v (Weights r)\<rparr>"] Cons.prems(2) p False
      by simp
  qed
qed

text \<open>
  Claim C2. When \<open>Resolve\<close> succeeds with a tenant override, the resolved fields are the
  global fields together with the tenant's, and for every such field the effective
  weight is the tenant's standalone weight when there is one; otherwise the weight
  embedded in the tenant's definition of the field when there is one; otherwise the
  weight embedded in the global definition. The three maps are Go maps, with one entry
  per name.
\<close>

theorem Resolve_weight_precedence:
  assumes "Resolve L globalConfig tenantConfig = Inr resolved"
    and "unmarshalGlobal L globalConfig = Inr global"
    and "tenantConfig \<noteq> []" and "tenantConfig \<noteq> ''null''"
    and "unmarshalTenant L tenantConfig = Inr tenant"
    and "uniqueKeys (gFields global)" and "uniqueKeys (tFields tenant)"
    and "uniqueKeys (tWeights tenant)"
  shows "fst ` set (Fields resolved) = fst ` set (gFields global) \<union> fst ` set (tFields tenant)
    \<and> (\<forall>f \<in> fst ` set (Fields resolved).
          (\<forall>w. map_of (tWeights tenant) f = Some w \<longrightarrow> lookupWeight (Weights resolved) f = w)
        \<and> (\<forall>fd. map_of (tWeights tenant) f = None \<and> map_of (tFields tenant) f = Some fd
                \<longrightarrow> lookupWeight (Weights resolved) f = fdWeight fd)
        \<and> (map_of (tWeights tenant) f = None \<and> map_of (tFields tenant) f = None
                \<longrightarrow> (\<exists>fd. map_of (gFields global) f = Some fd
                          \<and> lookupWeight (Weights resolved) f = fdWeight fd)))"
proof -
  define r0 where "r0 = copyFields (gFields global)
                     \<lparr>Fields = [], SiteIDColumn = gSiteIDColumn global, Weights = []\<rparr>"
  define r1 where "r1 = (case tSiteIDColumn tenant of None \<Rightarrow> r0
                          | Some c \<Rightarrow> r0\<lparr>SiteIDColumn := c\<rparr>)"
  define r2 where "r2 = copyFields (tFields tenant) r1"
  have ow: "overrideWeights (tWeights tenant) r2 = Inr resolved"
    using assms(1-5) unfolding Resolve_def r0_def r1_def r2_def
    by (auto simp: Let_def split: if_splits)
  have r1F: "Fields r1 = Fields r0" and r1W: "Weights r1 = Weights r0"
    unfolding r1_def by (auto split: option.splits)
  have F0: "\<And>n. map_of (Fields r0) n = map_of (gFields global) n"
    unfolding r0_def using copyFields_Fields[OF assms(6)] by (auto split: option.splits)
  have W0: "\<And>n. map_of (Weights r0) n = map_option fdWeight (map_of (gFields global) n)"
    unfolding r0_def using copyFields_Weights[OF assms(6)] by (auto split: option.splits)
  have F2: "\<And>n. map_of (Fields r2) n =
      (case map_of (tFields tenant) n of Some fd \<Rightarrow> Some fd | None \<Rightarrow> map_of (gFields global) n)"
    by (simp add: r2_def copyFields_Fields[OF assms(7)] r1F F0 split: option.splits)
  have W2: "\<And>n. map_of (Weights r2) n =
      (case map_of (tFields tenant) n of Some fd \<Rightarrow> Some (fdWeight fd)
       | None \<Rightarrow> map_option fdWeight (map_of (gFields global) n))"
    by (simp add: r2_def copyFields_Weights[OF assms(7)] r1W W0 split: option.splits)
  have FR: "Fields resolved = Fields r2" using overrideWeights_Fields[OF ow] .
  have WR: "\<And>n. map_of (Weights resolved) n =
      (case map_of (tWeights tenant) n of Some w \<Rightarrow> Some w | None \<Rightarrow> map_of (Weights r2) n)"
    using overrideWeights_Weights[OF assms(8) ow] .
  have dom: "fst ` set (Fields resolved) = fst ` set (gFields global) \<union> fst ` set (tFields tenant)"
  proof -
    have "dom (map_of (Fields resolved)) = dom (map_of (gFields global)) \<union> dom (map_of (tFields tenant))"
      unfolding FR using F2 by (auto simp: dom_def split: option.splits)
    then show ?thesis by (simp add: dom_map_of_conv_image_fst)
  qed
  have prec: "\<forall>f \<in> fst ` set (Fields resolved).
          (\<forall>w. map_of (tWeights tenant) f = Some w \<longrightarrow> lookupWeight (Weights resolved) f = w)
        \<and> (\<forall>fd. map_of (tWeights tenant) f = None \<and> map_of (tFields tenant) f = Some fd
                \<longrightarrow> lookupWeight (Weights resolved) f = fdWeight fd)
        \<and> (map_of (tWeights tenant) f = None \<and> map_of (tFields tenant) f = None
                \<longrightarrow> (\<exists>fd. map_of (gFields global) f = Some fd
                          \<and> lookupWeight (Weights resolved) f = fdWeight fd))"
  proof
    fix f assume f: "f \<in> fst ` set (Fields resolved)"
    then have "f \<in> dom (map_of (Fields r2))" unfolding FR by (simp add: dom_map_of_conv_image_fst)
    then have ex: "map_of (tFields tenant) f = None \<Longrightarrow> \<exists>fd. map_of (gFields global) f = Some fd"
      using F2[of f] by (auto simp: dom_def)
    show "(\<forall>w. map_of (tWeights tenant) f = Some w \<longrightarrow> lookupWeight (Weights resolved) f = w)
        \<and> (\<forall>fd. map_of (tWeights tenant) f = None \<and> map_of (tFields tenant) f = Some fd
                \<longrightarrow> lookupWeight (Weights resolved) f = fdWeight fd)
        \<and> (map_of (tWeights tenant) f = None \<and> map_of (tFields tenant) f = None
                \<longrightarrow> (\<exists>fd. map_of (gFields global) f = Some fd
                          \<and> lookupWeight (Weights resolved) f = fdWeight fd))"
      using ex WR[of f] W2[of f] by (auto simp: lookupWeight_def)
  qed
  show ?thesis using dom prec by blast
qed

lemma Resolve_layered:
  "\<exists>resolved. Resolve layeredLib ''g'' ''t'' = Inr resolved"
  by (simp add: Resolve_def layeredLib_def layeredGlobal_def layeredTenant_def)

text \<open>
  \<open>rate\<close> has the weight 1 globally, 6 in the tenant's definition and the standalone
  weight 2; \<open>pop\<close> has 3 globally and 5 in the tenant's definition; \<open>idx\<close> has 4 globally.
\<close>

theorem Resolve_weight_precedence_witness:
  "\<exists>resolved. Resolve layeredLib ''g'' ''t'' = Inr resolved
     \<and> lookupWeight (Weights resolved) ''rate'' = 2
     \<and> lookupWeight (Weights resolved) ''pop'' = 5
     \<and> lookupWeight (Weights resolved) ''idx'' = 4"
proof -
  obtain resolved where r: "Resolve layeredLib ''g'' ''t'' = Inr resolved"
    using Resolve_layered by blast
  have g: "unmarshalGlobal layeredLib ''g'' = Inr layeredGlobal"
    and t: "unmarshalTenant layeredLib ''t'' = Inr layeredTenant"
    by (simp_all add: layeredLib_def)
  have u: "uniqueKeys (gFields layeredGlobal)" "uniqueKeys (tFields layeredTenant)"
    "uniqueKeys (tWeights layeredTenant)"
    by (simp_all add: uniqueKeys_def layeredGlobal_def layeredTenant_def)
  have n: "''t'' \<noteq> []" "''t'' \<noteq> ''null''" by simp_all
  note p = Resolve_weight_precedence[OF r g n t u]
  note d = conjunct1[OF p]
  note q = conjunct2[OF p]
  have i1: "''rate'' \<in> fst ` set (Fields resolved)" unfolding d by (simp add: layeredGlobal_def)
  have i2: "''pop'' \<in> fst ` set (Fields resolved)" unfolding d by (simp add: layeredGlobal_def)
  have i3: "''idx'' \<in> fst ` set (Fields resolved)" unfolding d by (simp add: layeredGlobal_def)
  have w1: "map_of (tWeights layeredTenant) ''rate'' = Some 2" by (simp add: layeredTenant_def)
  have w2: "map_of (tWeights layeredTenant) ''pop'' = None
            \<and> map_of (tFields layeredTenant) ''pop''
                = Some (exampleField 5 None None DirectionMaximize)"
    by (simp add: layeredTenant_def)
  have w3: "map_of (tWeights layeredTenant) ''idx'' = None
            \<and> map_of (tFields layeredTenant) ''idx'' = None"
    by (simp add: layeredTenant_def)
  have g3: "map_of (gFields layeredGlobal) ''idx''
              = Some (exampleField 4 (Some 0) (Some 10) DirectionMinimize)"
    by (simp add: layeredGlobal_def)
  have a: "lookupWeight (Weights resolved) ''rate'' = 2"
    using conjunct1[OF bspec[OF q i1]] w1 by blast
  have "lookupWeight (Weights resolved) ''pop''
          = fdWeight (exampleField 5 None None DirectionMaximize)"
    using conjunct1[OF conjunct2[OF bspec[OF q i2]]] w2 by blast
  then have b: "lookupWeight (Weights resolved) ''pop'' = 5" by (simp add: exampleField_def)
  have "\<exists>fd. map_of (gFields layeredGlobal) ''idx'' = Some fd
          \<and> lookupWeight (Weights resolved) ''idx'' = fdWeight fd"
    using conjunct2[OF conjunct2[OF bspec[OF q i3]]] w3 by blast
  then have c: "lookupWeight (Weights resolved) ''idx'' = 4"
    unfolding g3 by (auto simp: exampleField_def)
  show ?thesis using r a b c by blast
qed

section \<open>Properties of the idempotency claim\<close>

lemma Claim_fresh:
  "key \<noteq> [] \<Longrightarrow> tbl (tenant, key, rt) = None \<Longrightarrow>
   Claim None tbl tenant key rt rid =
     (Inr \<lparr>AlreadyExists = False, ResourceID = rid\<rparr>, tbl((tenant, key, rt) \<mapsto> rid))"
  by (simp add: Claim_def Let_def)

lemma Claim_existing:
  "key \<noteq> [] \<Longrightarrow> tbl (tenant, key, rt) = Some r \<Longrightarrow>
   Claim None tbl tenant key rt rid = (Inr \<lparr>AlreadyExists = True, ResourceID = r\<rparr>, tbl)"
  by (simp add: Claim_def Let_def)

lemma Claim_fault: "Claim (Some e) tbl tenant key rt rid = (Inl (if key = [] then ErrEmptyKey else e), tbl)"
  by (simp add: Claim_def)

lemma Claim_keeps:
  "tbl k = Some r \<Longrightarrow> snd (Claim fault tbl tenant key rt rid) k = Some r"
  by (auto simp: Claim_def Let_def split: option.splits)

lemma Claim_noop:
  "tbl (tenant, key, rt) = Some r \<Longrightarrow> snd (Claim fault tbl tenant key rt rid) = tbl"
  by (auto simp: Claim_def Let_def split: option.splits)

lemma runClaims_Cons:
  "runClaims tbl (c # cs) =
     (fst (Claim (ccFault c) tbl (ccTenant c) (ccKey c) (ccType c) (ccResource c))
        # fst (runClaims (snd (Claim (ccFault c) tbl (ccTenant c) (ccKey c) (ccType c) (ccResource c))) cs),
      snd (runClaims (snd (Claim (ccFault c) tbl (ccTenant c) (ccKey c) (ccType c) (ccResource c))) cs))"
  by (simp add: Let_def split: prod.splits)

lemma runClaims_length: "length (fst (runClaims tbl cs)) = length cs"
proof (induction cs arbitrary: tbl)
  case Nil
  then show ?case by simp
next
  case (Cons c cs)
  obtain res tbl1 where c1: "Claim (ccFault c) tbl (ccTenant c) (ccKey c) (ccType c) (ccResource c) = (res, tbl1)"
    by (cases "Claim (ccFault c) tbl (ccTenant c) (ccKey c) (ccType c) (ccResource c)")
  show ?case using Cons.IH[of tbl1] c1 by (simp add: runClaims_Cons del: runClaims.simps)
qed

lemma runClaims_keeps:
  "tbl k = Some r \<Longrightarrow> snd (runClaims tbl cs) k = Some r"
proof (induction cs arbitrary: tbl)
  case Nil
  then show ?case by simp
next
  case (Cons c cs)
  obtain res tbl1 where c1: "Claim (ccFault c) tbl (ccTenant c) (ccKey c) (ccType c) (ccResource c) = (res, tbl1)"
    by (cases "Claim (ccFault c) tbl (ccTenant c) (ccKey c) (ccType c) (ccResource c)")
  have "tbl1 k = Some r" using Claim_keeps[of tbl k r "ccFault c" "ccTenant c" "ccKey c" "ccType c" "ccResource c"] Cons.prems c1 by simp
  then show ?case using Cons.IH[of tbl1] c1 by (simp add: runClaims_Cons del: runClaims.simps)
qed

lemma runClaims_answers:
  assumes "tbl (tenant, key, rt) = Some r" and "key \<noteq> []"
    and "i < length cs" and "callKey (cs ! i) = (tenant, key, rt)" and "ccFault (cs ! i) = None"
  shows "fst (runClaims tbl cs) ! i = Inr \<lparr>AlreadyExists = True, ResourceID = r\<rparr>"
  using assms
proof (induction cs arbitrary: tbl i)
  case Nil
  then show ?case by simp
next
  case (Cons c cs)
  obtain res tbl1 where c1: "Claim (ccFault c) tbl (ccTenant c) (ccKey c) (ccType c) (ccResource c) = (res, tbl1)"
    by (cases "Claim (ccFault c) tbl (ccTenant c) (ccKey c) (ccType c) (ccResource c)")
  have t1: "tbl1 (tenant, key, rt) = Some r"
    using Claim_keeps[of tbl "(tenant, key, rt)" r "ccFault c" "ccTenant c" "ccKey c" "ccType c" "ccResource c"] Cons.prems(1) c1 by simp
  show ?case
  proof (cases i)
    case 0
    then have k: "ccTenant c = tenant" "ccKey c = key" "ccType c = rt" "ccFault c = None"
      using Cons.prems by (auto simp: callKey_def)
    have "res = Inr \<lparr>AlreadyExists = True, ResourceID = r\<rparr>"
      using c1 Claim_existing[of key tbl tenant rt r "ccResource c"] Cons.prems(1,2) k by simp
    then show ?thesis using 0 c1 by (simp add: runClaims_Cons del: runClaims.simps)
  next
    case (Suc j)
    then have "fst (runClaims tbl1 cs) ! j = Inr \<lparr>AlreadyExists = True, ResourceID = r\<rparr>"
      using Cons.IH[of tbl1 j] t1 Cons.prems by simp
    then show ?thesis using Suc c1 by (simp add: runClaims_Cons del: runClaims.simps)
  qed
qed

text \<open>
  Claim C7. For a non-empty key that the table does not hold, a claim that the store
  serves records the candidate id and answers \<open>AlreadyExists = False\<close> with it. From
  then on every claim for the same tenant, key and resource type, with any candidate
  and any fault, leaves the table as it is, and answers \<open>AlreadyExists = True\<close> with the
  first id when the store serves it. This holds along every order in which the
  statements of later callers, for this key or others, reach the table: the table
  keeps the first id, so exactly one candidate is ever recorded for the key.
\<close>

theorem Claim_first_wins:
  assumes "key \<noteq> []" and "tbl (tenant, key, rt) = None"
  shows "Claim None tbl tenant key rt rid =
           (Inr \<lparr>AlreadyExists = False, ResourceID = rid\<rparr>, tbl((tenant, key, rt) \<mapsto> rid))
     \<and> (\<forall>fault rid'. snd (Claim fault (tbl((tenant, key, rt) \<mapsto> rid)) tenant key rt rid')
            = tbl((tenant, key, rt) \<mapsto> rid))
     \<and> (\<forall>rid'. fst (Claim None (tbl((tenant, key, rt) \<mapsto> rid)) tenant key rt rid')
            = Inr \<lparr>AlreadyExists = True, ResourceID = rid\<rparr>)
     \<and> (\<forall>cs. snd (runClaims (tbl((tenant, key, rt) \<mapsto> rid)) cs) (tenant, key, rt) = Some rid
            \<and> (\<forall>i<length cs. callKey (cs ! i) = (tenant, key, rt) \<and> ccFault (cs ! i) = None \<longrightarrow>
                  fst (runClaims (tbl((tenant, key, rt) \<mapsto> rid)) cs) ! i
                    = Inr \<lparr>AlreadyExists = True, ResourceID = rid\<rparr>))"
proof -
  let ?k = "(tenant, key, rt)"
  let ?t = "tbl(?k \<mapsto> rid)"
  have s: "?t ?k = Some rid" by simp
  have a: "Claim None tbl tenant key rt rid =
           (Inr \<lparr>AlreadyExists = False, ResourceID = rid\<rparr>, ?t)"
    using assms by (rule Claim_fresh)
  have b: "\<forall>fault rid'. snd (Claim fault ?t tenant key rt rid') = ?t"
    using Claim_noop[of ?t tenant key rt rid] s by blast
  have c: "\<forall>rid'. fst (Claim None ?t tenant key rt rid') = Inr \<lparr>AlreadyExists = True, ResourceID = rid\<rparr>"
    using Claim_existing[of key ?t tenant rt rid] assms(1) s by simp
  have d: "\<forall>cs. snd (runClaims ?t cs) ?k = Some rid
            \<and> (\<forall>i<length cs. callKey (cs ! i) = ?k \<and> ccFault (cs ! i) = None \<longrightarrow>
                  fst (runClaims ?t cs) ! i = Inr \<lparr>AlreadyExists = True, ResourceID = rid\<rparr>)"
    using runClaims_keeps[of ?t ?k rid] runClaims_answers[of ?t tenant key rt rid] s assms(1) by blast
  show ?thesis using a b c d by blast
qed

text \<open>Candidate 10 claims the key; the callers with candidates 20 and 30 are answered 10.\<close>

theorem Claim_first_wins_witness:
  "Claim None Map.empty 1 ''k1'' ''upload'' 10
     = (Inr \<lparr>AlreadyExists = False, ResourceID = 10\<rparr>, [(1, ''k1'', ''upload'') \<mapsto> 10])
   \<and> fst (Claim None [(1, ''k1'', ''upload'') \<mapsto> 10] 1 ''k1'' ''upload'' 20)
       = Inr \<lparr>AlreadyExists = True, ResourceID = 10\<rparr>
   \<and> snd (runClaims [(1, ''k1'', ''upload'') \<mapsto> 10] [exampleCall 20, exampleCall 30])
        (1, ''k1'', ''upload'') = Some 10
   \<and> fst (runClaims [(1, ''k1'', ''upload'') \<mapsto> 10] [exampleCall 20, exampleCall 30]) ! 1
       = Inr \<lparr>AlreadyExists = True, ResourceID = 10\<rparr>"
proof -
  have p: "Claim None Map.empty 1 ''k1'' ''upload'' 10 =
           (Inr \<lparr>AlreadyExists = False, ResourceID = 10\<rparr>, [(1, ''k1'', ''upload'') \<mapsto> 10])
     \<and> (\<forall>fault rid'. snd (Claim fault [(1, ''k1'', ''upload'') \<mapsto> 10] 1 ''k1'' ''upload'' rid')
            = [(1, ''k1'', ''upload'') \<mapsto> 10])
     \<and> (\<forall>rid'. fst (Claim None [(1, ''k1'', ''upload'') \<mapsto> 10] 1 ''k1'' ''upload'' rid')
            = Inr \<lparr>AlreadyExists = True, ResourceID = 10\<rparr>)
     \<and> (\<forall>cs. snd (runClaims [(1, ''k1'', ''upload'') \<mapsto> 10] cs) (1, ''k1'', ''upload'') = Some 10
            \<and> (\<forall>i<length cs. callKey (cs ! i) = (1, ''k1'', ''upload'') \<and> ccFault (cs ! i) = None \<longrightarrow>
                  fst (runClaims [(1, ''k1'', ''upload'') \<mapsto> 10] cs) ! i
                    = Inr \<lparr>AlreadyExists = True, ResourceID = 10\<rparr>))"
    using Claim_first_wins[where key = "''k1''" and tbl = Map.empty and tenant = 1
                            and rt = "''upload''" and rid = 10]
    by simp
  note a = conjunct1[OF p]
  note b = spec[OF conjunct1[OF conjunct2[OF conjunct2[OF p]]], where x = 20]
  note c = spec[OF conjunct2[OF conjunct2[OF conjunct2[OF p]]], where x = "[exampleCall 20, exampleCall 30]"]
  have l: "(1::nat) < length [exampleCall 20, exampleCall 30]" by simp
  have k: "callKey ([exampleCall 20, exampleCall 30] ! 1) = (1, ''k1'', ''upload'')
          \<and> ccFault ([exampleCall 20, exampleCall 30] ! 1) = None"
    by (simp add: callKey_def exampleCall_def)
  note d = mp[OF mp[OF spec[OF conjunct2[OF c], where x = 1] l] k]
  show ?thesis using a b conjunct1[OF c] d by (intro conjI)
qed

section \<open>Properties of the retry wrapper\<close>












end
